theory Spec2Isabelle
  imports Main
begin

section \<open>The OCI surrogate driver: state poller\<close>

subsection \<open>Go values\<close>

text \<open>
  Go's \<open>int\<close> is a 64-bit two's complement integer on the 64-bit platforms the plugin
  is built for. It is modelled as an \<open>int\<close> in the range of \<open>int64\<close>, and the
  increment of the loop counter wraps around as the machine's does.
\<close>

definition int_wrap :: "int \<Rightarrow> int" where
  "int_wrap x = (x + 2 ^ 63) mod 2 ^ 64 - 2 ^ 63"

definition is_int :: "int \<Rightarrow> bool" where
  "is_int x = (- (2 ^ 63) \<le> x \<and> x < 2 ^ 63)"

text \<open>\<open>time.Duration\<close> counts nanoseconds; \<open>time.Second\<close> is \<open>1000000000\<close>.\<close>

definition Second :: int where
  "Second = 1000000000"

text \<open>
  A Go \<open>error\<close> value. \<open>Remote e\<close> is an error returned by a call of the OCI SDK,
  handed on unchanged. The other constructors are the errors this package builds itself,
  each holding the arguments of its format string:
  \<^item> \<open>ZeroVNICs\<close>: \<^verbatim>\<open>errors.New("instance has zero VNICs")\<close>;
  \<^item> \<open>VnicDetailsError e\<close>: \<^verbatim>\<open>fmt.Errorf("Error getting VNIC details: %s", err)\<close>;
  \<^item> \<open>NoPublicIp id\<close>: \<^verbatim>\<open>fmt.Errorf("Error getting VNIC Public Ip for: %s", id)\<close>;
  \<^item> \<open>UnexpectedState state waitStates terminalState\<close>:
    \<^verbatim>\<open>fmt.Errorf("Unexpected resource state %q, expecting a waiting state %s or terminal state  %q ", state, waitStates, terminalState)\<close>;
  \<^item> \<open>MaxRetriesExceeded maxRetries terminalState\<close>:
    \<^verbatim>\<open>fmt.Errorf("Maximum number of retries (%d) exceeded; resource did not reach state %q", maxRetries, terminalState)\<close>.
\<close>

datatype 'e error =
    Remote 'e
  | ZeroVNICs
  | VnicDetailsError 'e
  | NoPublicIp string
  | UnexpectedState string "string list" string
  | MaxRetriesExceeded int string

subsection \<open>The world a poll runs in\<close>

text \<open>
  The poller has two effects: it invokes the closure \<open>getResourceState\<close>, whose answer
  may change from one invocation to the next, and it sleeps. Both are made explicit in a
  state that is passed along: \<open>now\<close> is the time slept so far in nanoseconds, \<open>fetched\<close>
  counts the invocations of \<open>getResourceState\<close> and \<open>sleeps\<close> the calls of
  \<open>time.Sleep\<close>. The closure is a function of its argument and of the state in which
  it is invoked.
\<close>

record world =
  now :: int
  fetched :: nat
  sleeps :: nat

type_synonym 'e getter = "string \<Rightarrow> world \<Rightarrow> 'e error + string"

text \<open>\<open>time.Sleep d\<close> returns at once when \<open>d\<close> is zero or negative.\<close>

definition Sleep :: "int \<Rightarrow> world \<Rightarrow> world" where
  "Sleep d w = w\<lparr>now := now w + max 0 d, sleeps := sleeps w + 1\<rparr>"

definition invoked :: "world \<Rightarrow> world" where
  "invoked w = w\<lparr>fetched := fetched w + 1\<rparr>"

subsection \<open>stringSliceContains and waitForResourceToReachState\<close>

fun stringSliceContains :: "string list \<Rightarrow> string \<Rightarrow> bool" where
  "stringSliceContains [] v = False"
| "stringSliceContains (elem # slice) v = (if elem = v then True else stringSliceContains slice v)"

text \<open>
  The \<open>for\<close> loop of \<open>waitForResourceToReachState\<close>, entered with the counter \<open>i\<close>.
  With \<open>maxRetries = 0\<close> the loop may run forever, which is the value \<open>None\<close>; a
  returned \<open>error\<close> is \<open>Some\<close> of the pair of the Go result (\<open>None\<close> for \<open>nil\<close>)
  and the final state.
\<close>

partial_function (option) pollLoop ::
  "'e getter \<Rightarrow> string \<Rightarrow> string list \<Rightarrow> string \<Rightarrow> int \<Rightarrow> int \<Rightarrow> int \<Rightarrow> world
    \<Rightarrow> ('e error option \<times> world) option" where
  "pollLoop getResourceState ident waitStates terminalState maxRetries waitDuration i w =
     (if maxRetries = 0 \<or> i < maxRetries then
        (case getResourceState ident w of
           Inl err \<Rightarrow> Some (Some err, invoked w)
         | Inr state \<Rightarrow>
             if stringSliceContains waitStates state then
               pollLoop getResourceState ident waitStates terminalState maxRetries waitDuration
                 (int_wrap (i + 1)) (Sleep waitDuration (invoked w))
             else if state = terminalState then Some (None, invoked w)
             else Some (Some (UnexpectedState state waitStates terminalState), invoked w))
      else Some (Some (MaxRetriesExceeded maxRetries terminalState), w))"

definition waitForResourceToReachState ::
  "'e getter \<Rightarrow> string \<Rightarrow> string list \<Rightarrow> string \<Rightarrow> int \<Rightarrow> int \<Rightarrow> world
    \<Rightarrow> ('e error option \<times> world) option" where
  "waitForResourceToReachState getResourceState ident waitStates terminalState maxRetries
       waitDuration w =
     pollLoop getResourceState ident waitStates terminalState maxRetries waitDuration 0 w"

subsection \<open>What the closure yields during a poll\<close>

text \<open>
  \<open>observes g ident d w xs\<close>: invoked at the successive iterations of a poll that starts
  in the state \<open>w\<close> and sleeps \<open>d\<close> after each of them, the closure \<open>g\<close> yields the
  results \<open>xs\<close> in this order. \<open>after n d w\<close> is the state after \<open>n\<close> such iterations.
\<close>

fun observes :: "'e getter \<Rightarrow> string \<Rightarrow> int \<Rightarrow> world \<Rightarrow> ('e error + string) list \<Rightarrow> bool" where
  "observes g ident d w [] = True"
| "observes g ident d w (x # xs) = (g ident w = x \<and> observes g ident d (Sleep d (invoked w)) xs)"

definition after :: "nat \<Rightarrow> int \<Rightarrow> world \<Rightarrow> world" where
  "after n d w =
     w\<lparr>now := now w + int n * max 0 d, fetched := fetched w + n, sleeps := sleeps w + n\<rparr>"

section \<open>The driver\<close>

subsection \<open>Contexts, configuration and the SDK's structures\<close>

text \<open>
  A \<open>context.Context\<close> is known by the moment it is cancelled, if ever, on the clock
  \<open>now\<close>. \<open>context.TODO()\<close> is never cancelled.
\<close>

datatype "context" = Context "int option"

definition TODO :: "context" where
  "TODO = Context None"

fun Done :: "context \<Rightarrow> int \<Rightarrow> bool" where
  "Done (Context None) t = False"
| "Done (Context (Some c)) t = (c \<le> t)"

text \<open>The fields of \<open>Config\<close> that the driver reads. A \<open>nil\<close> map has no entries.\<close>

record Config =
  UsePrivateIP :: bool
  AvailabilityDomain :: string
  CompartmentID :: string
  BaseImageID :: string
  BaseImageName :: string
  Shape :: string
  BootVolumeSizeInGBs :: int
  InstanceName :: string
  Metadata :: "string \<rightharpoonup> string"
  UserData :: string
  SubnetID :: string

text \<open>
  Requests, with the fields the driver sets. A field that the driver fills with the
  address of a variable is the value itself; a field that it fills with a pointer taken
  from a response is an \<open>option\<close>, \<open>None\<close> for \<open>nil\<close>.
\<close>

record ListImagesRequest =
  li_CompartmentId :: string
  li_DisplayName :: string

datatype InstanceSourceDetails =
    InstanceSourceViaImageDetails string int
  | InstanceSourceViaBootVolumeDetails string

record LaunchInstanceDetails =
  la_AvailabilityDomain :: string
  la_CompartmentId :: string
  la_Shape :: string
  la_Metadata :: "string \<rightharpoonup> string"
  la_SubnetId :: string
  la_SourceDetails :: InstanceSourceDetails
  la_DisplayName :: "string option"

record ListBootVolumeAttachmentsRequest =
  lb_AvailabilityDomain :: string
  lb_CompartmentId :: string
  lb_InstanceId :: string

record CreateBootVolumeDetails =
  cb_AvailabilityDomain :: string
  cb_CompartmentId :: string
  cb_SourceBootVolumeId :: "string option"
  cb_SizeInGBs :: int

record ListVnicAttachmentsRequest =
  lv_InstanceId :: string
  lv_CompartmentId :: string

text \<open>Responses, with the fields the driver reads; a pointer field is an \<open>option\<close>.\<close>

record Image =
  image_Id :: "string option"
  image_LifecycleState :: string

record Instance =
  instance_Id :: "string option"
  instance_LifecycleState :: string

record BootVolumeAttachment =
  BootVolumeId :: "string option"

record BootVolume =
  bootVolume_Id :: "string option"
  bootVolume_LifecycleState :: string

record VolumeAttachment =
  volumeAttachment_LifecycleState :: string

record VnicAttachment =
  VnicId :: "string option"

record Vnic =
  PrivateIp :: "string option"
  PublicIp :: "string option"

text \<open>
  The three SDK clients are parameters: each call answers with an error of the SDK
  (\<open>Inl\<close>) or with its response. The get calls that a wait polls answer according to
  the state they are made in.
\<close>

record 'e ComputeClient =
  ListImages :: "context \<Rightarrow> ListImagesRequest \<Rightarrow> 'e + Image list"
  LaunchInstance :: "context \<Rightarrow> LaunchInstanceDetails \<Rightarrow> 'e + Instance"
  ListBootVolumeAttachments ::
    "context \<Rightarrow> ListBootVolumeAttachmentsRequest \<Rightarrow> 'e + BootVolumeAttachment list"
  ListVnicAttachments :: "context \<Rightarrow> ListVnicAttachmentsRequest \<Rightarrow> 'e + VnicAttachment list"
  GetImage :: "context \<Rightarrow> string \<Rightarrow> world \<Rightarrow> 'e + Image"
  GetInstance :: "context \<Rightarrow> string \<Rightarrow> world \<Rightarrow> 'e + Instance"
  GetVolumeAttachment :: "context \<Rightarrow> string \<Rightarrow> world \<Rightarrow> 'e + VolumeAttachment"

record 'e BlockstorageClient =
  CreateBootVolume :: "context \<Rightarrow> CreateBootVolumeDetails \<Rightarrow> 'e + BootVolume"
  GetBootVolume :: "context \<Rightarrow> string \<Rightarrow> world \<Rightarrow> 'e + BootVolume"

record 'e VirtualNetworkClient =
  GetVnic :: "context \<Rightarrow> string option \<Rightarrow> 'e + Vnic"

record 'e driverOCI =
  computeClient :: "'e ComputeClient"
  blockstorageClient :: "'e BlockstorageClient"
  vcnClient :: "'e VirtualNetworkClient"
  cfg :: Config

text \<open>The remote calls an operation issues, in order.\<close>

datatype Call =
    ListImagesCall "context" ListImagesRequest
  | LaunchInstanceCall "context" LaunchInstanceDetails
  | ListBootVolumeAttachmentsCall "context" ListBootVolumeAttachmentsRequest
  | CreateBootVolumeCall "context" CreateBootVolumeDetails

fun isListImages :: "Call \<Rightarrow> bool" where
  "isListImages (ListImagesCall ctx req) = True"
| "isListImages c = False"

text \<open>The sources of the launch calls and of the create-boot-volume calls in a list of calls.\<close>

fun launchSources :: "Call list \<Rightarrow> InstanceSourceDetails list" where
  "launchSources [] = []"
| "launchSources (LaunchInstanceCall ctx details # calls) =
     la_SourceDetails details # launchSources calls"
| "launchSources (c # calls) = launchSources calls"

fun cloneSources :: "Call list \<Rightarrow> string option list" where
  "cloneSources [] = []"
| "cloneSources (CreateBootVolumeCall ctx details # calls) =
     cb_SourceBootVolumeId details # cloneSources calls"
| "cloneSources (c # calls) = cloneSources calls"

text \<open>
  A Go function with the results \<open>(string, error)\<close> returns both, or panics: indexing a
  slice beyond its length and dereferencing a \<open>nil\<close> pointer are run-time panics.
\<close>

datatype panic = IndexOutOfRange | NilPointerDereference

datatype 'e returns = Panic panic | Return string "'e error option"

subsection \<open>CreateInstance\<close>

text \<open>
  The second half of \<open>CreateInstance\<close>: the source details, the launch request and the
  call of \<open>LaunchInstance\<close>; \<open>calls\<close> are the remote calls issued before it.
\<close>

definition launchFrom ::
  "'e driverOCI \<Rightarrow> (string \<rightharpoonup> string) \<Rightarrow> string \<Rightarrow> string \<Rightarrow> Call list
    \<Rightarrow> 'e returns \<times> Call list" where
  "launchFrom d metadata imageId surrogateVolumeId calls =
     (let sourcedetails =
            (if surrogateVolumeId \<noteq> '''' then InstanceSourceViaBootVolumeDetails surrogateVolumeId
             else InstanceSourceViaImageDetails imageId (BootVolumeSizeInGBs (cfg d)));
          instanceDetails =
            \<lparr>la_AvailabilityDomain = AvailabilityDomain (cfg d),
             la_CompartmentId = CompartmentID (cfg d),
             la_Shape = Shape (cfg d),
             la_Metadata = metadata,
             la_SubnetId = SubnetID (cfg d),
             la_SourceDetails = sourcedetails,
             la_DisplayName =
               (if InstanceName (cfg d) \<noteq> '''' then Some (InstanceName (cfg d)) else None)\<rparr>;
          calls' = calls @ [LaunchInstanceCall TODO instanceDetails]
      in case LaunchInstance (computeClient d) TODO instanceDetails of
           Inl err \<Rightarrow> (Return '''' (Some (Remote err)), calls')
         | Inr inst \<Rightarrow>
             (case instance_Id inst of
                None \<Rightarrow> (Panic NilPointerDereference, calls')
              | Some ident \<Rightarrow> (Return ident None, calls')))"

text \<open>
  The first lines of \<open>CreateInstance\<close>: the metadata of the instance. The entries of the
  configuration overwrite the key, and the user data overwrite both.
\<close>

definition instanceMetadata :: "Config \<Rightarrow> string \<Rightarrow> (string \<rightharpoonup> string)" where
  "instanceMetadata c publicKey =
     (let metadata = [''ssh_authorized_keys'' \<mapsto> publicKey] ++ Metadata c
      in if UserData c \<noteq> '''' then metadata(''user_data'' \<mapsto> UserData c) else metadata)"

definition CreateInstance ::
  "'e driverOCI \<Rightarrow> context \<Rightarrow> string \<Rightarrow> string \<Rightarrow> 'e returns \<times> Call list" where
  "CreateInstance d ctx publicKey surrogateVolumeId =
     (let metadata = instanceMetadata (cfg d) publicKey
      in if BaseImageName (cfg d) \<noteq> '''' then
           (let req = \<lparr>li_CompartmentId = CompartmentID (cfg d),
                       li_DisplayName = BaseImageName (cfg d)\<rparr>
            in case ListImages (computeClient d) TODO req of
                 Inl err \<Rightarrow> (Return '''' (Some (Remote err)), [ListImagesCall TODO req])
               | Inr items \<Rightarrow>
                   (case items of
                      [] \<Rightarrow> (Panic IndexOutOfRange, [ListImagesCall TODO req])
                    | img # rest \<Rightarrow>
                        (case image_Id img of
                           None \<Rightarrow> (Panic NilPointerDereference, [ListImagesCall TODO req])
                         | Some imageId \<Rightarrow>
                             launchFrom d metadata imageId surrogateVolumeId
                               [ListImagesCall TODO req])))
         else launchFrom d metadata (BaseImageID (cfg d)) surrogateVolumeId [])"

subsection \<open>CreateBootClone\<close>

definition CreateBootClone :: "'e driverOCI \<Rightarrow> context \<Rightarrow> string \<Rightarrow> 'e returns \<times> Call list" where
  "CreateBootClone d ctx InstanceId =
     (let req = \<lparr>lb_AvailabilityDomain = AvailabilityDomain (cfg d),
                 lb_CompartmentId = CompartmentID (cfg d),
                 lb_InstanceId = InstanceId\<rparr>
      in case ListBootVolumeAttachments (computeClient d) ctx req of
           Inl err0 \<Rightarrow> (Return '''' (Some (Remote err0)), [ListBootVolumeAttachmentsCall ctx req])
         | Inr items \<Rightarrow>
             (case items of
                [] \<Rightarrow> (Panic IndexOutOfRange, [ListBootVolumeAttachmentsCall ctx req])
              | attachment # rest \<Rightarrow>
                  (let details = \<lparr>cb_AvailabilityDomain = AvailabilityDomain (cfg d),
                                  cb_CompartmentId = CompartmentID (cfg d),
                                  cb_SourceBootVolumeId = BootVolumeId attachment,
                                  cb_SizeInGBs = BootVolumeSizeInGBs (cfg d)\<rparr>;
                       calls = [ListBootVolumeAttachmentsCall ctx req,
                                CreateBootVolumeCall ctx details]
                   in case CreateBootVolume (blockstorageClient d) ctx details of
                        Inl err \<Rightarrow> (Return '''' (Some (Remote err)), calls)
                      | Inr volume \<Rightarrow>
                          (case bootVolume_Id volume of
                             None \<Rightarrow> (Panic NilPointerDereference, calls)
                           | Some ident \<Rightarrow> (Return ident None, calls)))))"

subsection \<open>GetInstanceIP\<close>

definition GetInstanceIP :: "'e driverOCI \<Rightarrow> context \<Rightarrow> string \<Rightarrow> 'e returns" where
  "GetInstanceIP d ctx ident =
     (case ListVnicAttachments (computeClient d) ctx
             \<lparr>lv_InstanceId = ident, lv_CompartmentId = CompartmentID (cfg d)\<rparr> of
        Inl err \<Rightarrow> Return '''' (Some (Remote err))
      | Inr items \<Rightarrow>
          if length items = 0 then Return '''' (Some ZeroVNICs)
          else
            (case GetVnic (vcnClient d) ctx (VnicId (hd items)) of
               Inl err \<Rightarrow> Return '''' (Some (VnicDetailsError err))
             | Inr vnic \<Rightarrow>
                 if UsePrivateIP (cfg d) then
                   (case PrivateIp vnic of
                      None \<Rightarrow> Panic NilPointerDereference
                    | Some ip \<Rightarrow> Return ip None)
                 else
                   (case PublicIp vnic of
                      None \<Rightarrow> Return '''' (Some (NoPublicIp ident))
                    | Some ip \<Rightarrow> Return ip None)))"

subsection \<open>The wait operations\<close>

text \<open>
  The closures handed to the poller. Each ignores its argument and asks for the resource
  \<open>ident\<close> under the caller's context.
\<close>

definition imageState :: "'e driverOCI \<Rightarrow> context \<Rightarrow> string \<Rightarrow> 'e getter" where
  "imageState d ctx ident arg w =
     (case GetImage (computeClient d) ctx ident w of
        Inl err \<Rightarrow> Inl (Remote err)
      | Inr img \<Rightarrow> Inr (image_LifecycleState img))"

definition instanceState :: "'e driverOCI \<Rightarrow> context \<Rightarrow> string \<Rightarrow> 'e getter" where
  "instanceState d ctx ident arg w =
     (case GetInstance (computeClient d) ctx ident w of
        Inl err \<Rightarrow> Inl (Remote err)
      | Inr inst \<Rightarrow> Inr (instance_LifecycleState inst))"

definition bootVolumeState :: "'e driverOCI \<Rightarrow> context \<Rightarrow> string \<Rightarrow> 'e getter" where
  "bootVolumeState d ctx ident arg w =
     (case GetBootVolume (blockstorageClient d) ctx ident w of
        Inl err \<Rightarrow> Inl (Remote err)
      | Inr volume \<Rightarrow> Inr (bootVolume_LifecycleState volume))"

definition volumeAttachmentState :: "'e driverOCI \<Rightarrow> context \<Rightarrow> string \<Rightarrow> 'e getter" where
  "volumeAttachmentState d ctx ident arg w =
     (case GetVolumeAttachment (computeClient d) ctx ident w of
        Inl err \<Rightarrow> Inl (Remote err)
      | Inr volume \<Rightarrow> Inr (volumeAttachment_LifecycleState volume))"

definition WaitForImageCreation ::
  "'e driverOCI \<Rightarrow> context \<Rightarrow> string \<Rightarrow> world \<Rightarrow> ('e error option \<times> world) option" where
  "WaitForImageCreation d ctx ident =
     waitForResourceToReachState (imageState d ctx ident) ident
       [''PROVISIONING''] ''AVAILABLE'' 0 (5 * Second)"

definition WaitForInstanceState ::
  "'e driverOCI \<Rightarrow> context \<Rightarrow> string \<Rightarrow> string list \<Rightarrow> string \<Rightarrow> world
    \<Rightarrow> ('e error option \<times> world) option" where
  "WaitForInstanceState d ctx ident waitStates terminalState =
     waitForResourceToReachState (instanceState d ctx ident) ident
       waitStates terminalState 0 (5 * Second)"

definition WaitForBootVolumeState ::
  "'e driverOCI \<Rightarrow> context \<Rightarrow> string \<Rightarrow> string list \<Rightarrow> string \<Rightarrow> world
    \<Rightarrow> ('e error option \<times> world) option" where
  "WaitForBootVolumeState d ctx ident waitStates terminalState =
     waitForResourceToReachState (bootVolumeState d ctx ident) ident
       waitStates terminalState 0 (5 * Second)"

definition WaitForVolumeAttachmentState ::
  "'e driverOCI \<Rightarrow> context \<Rightarrow> string \<Rightarrow> string list \<Rightarrow> string \<Rightarrow> world
    \<Rightarrow> ('e error option \<times> world) option" where
  "WaitForVolumeAttachmentState d ctx ident waitStates terminalState =
     waitForResourceToReachState (volumeAttachmentState d ctx ident) ident
       waitStates terminalState 0 (5 * Second)"

subsection \<open>A scripted remote service\<close>

text \<open>
  Concrete inputs for the theorems below. \<open>scripted xs\<close> is a state function that
  yields the results \<open>xs\<close> one per invocation and an error from then on. \<open>canned\<close> is
  a driver whose clients answer the list calls with the given items, every create call
  with a fresh resource, and every polled get with the next state of \<open>states\<close>; as the
  SDK does, a polled get made under a context that is already cancelled answers with the
  context's error.
\<close>

definition start :: world where
  "start = \<lparr>now = 0, fetched = 0, sleeps = 0\<rparr>"

definition scripted :: "(string error + string) list \<Rightarrow> string getter" where
  "scripted xs ident w =
     (if fetched w < length xs then xs ! fetched w else Inl (Remote ''script exhausted''))"

definition polled :: "string list \<Rightarrow> context \<Rightarrow> world \<Rightarrow> string + string" where
  "polled states ctx w =
     (if Done ctx (now w) then Inl ''context canceled''
      else if fetched w < length states then Inr (states ! fetched w)
      else Inl ''script exhausted'')"

definition canned ::
  "Config \<Rightarrow> Image list \<Rightarrow> BootVolumeAttachment list \<Rightarrow> VnicAttachment list \<Rightarrow> Vnic
    \<Rightarrow> string list \<Rightarrow> string driverOCI" where
  "canned c images attachments vnics vnic states =
     \<lparr>computeClient =
        \<lparr>ListImages = (\<lambda>ctx req. Inr images),
         LaunchInstance = (\<lambda>ctx details.
           Inr \<lparr>instance_Id = Some ''i-1'', instance_LifecycleState = ''PROVISIONING''\<rparr>),
         ListBootVolumeAttachments = (\<lambda>ctx req. Inr attachments),
         ListVnicAttachments = (\<lambda>ctx req. Inr vnics),
         GetImage = (\<lambda>ctx ident w. map_sum id
           (\<lambda>s. \<lparr>image_Id = Some ident, image_LifecycleState = s\<rparr>) (polled states ctx w)),
         GetInstance = (\<lambda>ctx ident w. map_sum id
           (\<lambda>s. \<lparr>instance_Id = Some ident, instance_LifecycleState = s\<rparr>) (polled states ctx w)),
         GetVolumeAttachment = (\<lambda>ctx ident w. map_sum id
           (\<lambda>s. \<lparr>volumeAttachment_LifecycleState = s\<rparr>) (polled states ctx w))\<rparr>,
      blockstorageClient =
        \<lparr>CreateBootVolume = (\<lambda>ctx details.
           Inr \<lparr>bootVolume_Id = Some ''bv-2'', bootVolume_LifecycleState = ''PROVISIONING''\<rparr>),
         GetBootVolume = (\<lambda>ctx ident w. map_sum id
           (\<lambda>s. \<lparr>bootVolume_Id = Some ident, bootVolume_LifecycleState = s\<rparr>)
           (polled states ctx w))\<rparr>,
      vcnClient = \<lparr>GetVnic = (\<lambda>ctx ident. Inr vnic)\<rparr>,
      cfg = c\<rparr>"

definition config :: "string \<Rightarrow> string \<Rightarrow> bool \<Rightarrow> Config" where
  "config imageId imageName private =
     \<lparr>UsePrivateIP = private,
      AvailabilityDomain = ''AD-1'',
      CompartmentID = ''compartment'',
      BaseImageID = imageId,
      BaseImageName = imageName,
      Shape = ''VM.Standard2.1'',
      BootVolumeSizeInGBs = 50,
      InstanceName = '''',
      Metadata = Map.empty,
      UserData = '''',
      SubnetID = ''subnet''\<rparr>"

section \<open>Properties of the state poller\<close>

subsection \<open>Auxiliary facts\<close>

lemma stringSliceContains_iff: "stringSliceContains xs v \<longleftrightarrow> v \<in> set xs"
  by (induction xs) auto

lemma after_0: "after 0 d w = w"
  by (simp add: after_def)

lemma after_Suc: "after n d (Sleep d (invoked w)) = after (Suc n) d w"
  by (simp add: after_def Sleep_def invoked_def algebra_simps)

lemma after_counts:
  "fetched (after n d w) = fetched w + n"
  "sleeps (after n d w) = sleeps w + n"
  "now (after n d w) = now w + int n * max 0 d"
  "fetched (invoked w) = fetched w + 1"
  "sleeps (invoked w) = sleeps w"
  "now (invoked w) = now w"
  by (simp_all add: after_def invoked_def)

lemma int_wrap_id: "is_int x \<Longrightarrow> int_wrap x = x"
  unfolding is_int_def int_wrap_def by (simp add: mod_pos_pos_trivial)

lemma observes_append:
  "observes g ident d w (xs @ ys)
    \<longleftrightarrow> observes g ident d w xs \<and> observes g ident d (after (length xs) d w) ys"
  by (induction xs arbitrary: w) (simp_all add: after_0 after_Suc)

text \<open>
  While the closure yields waiting states and the budget lasts, the loop goes round: it
  invokes the closure, sleeps and increments its counter.
\<close>

lemma pollLoop_waiting:
  assumes "observes g ident d w (map Inr ws)"
    and "list_all (stringSliceContains W) ws"
    and "N = 0 \<or> (0 \<le> i \<and> i + int (length ws) \<le> N \<and> is_int N)"
  shows "\<exists>j. (N = 0 \<or> j = i + int (length ws)) \<and>
           pollLoop g ident W T N d i w = pollLoop g ident W T N d j (after (length ws) d w)"
  using assms
proof (induction ws arbitrary: i w)
  case Nil
  then show ?case by (auto simp: after_0)
next
  case (Cons s ws)
  have guard: "N = 0 \<or> i < N" using Cons.prems(3) by auto
  have obs: "g ident w = Inr s" and rest: "observes g ident d (Sleep d (invoked w)) (map Inr ws)"
    using Cons.prems(1) by simp_all
  have wait: "stringSliceContains W s" using Cons.prems(2) by simp
  have step: "pollLoop g ident W T N d i w
      = pollLoop g ident W T N d (int_wrap (i + 1)) (Sleep d (invoked w))"
    by (subst pollLoop.simps) (simp add: guard obs wait)
  have wrap: "N = 0 \<or> int_wrap (i + 1) = i + 1"
  proof (cases "N = 0")
    case False
    with Cons.prems(3) have "is_int (i + 1)" by (auto simp: is_int_def)
    then show ?thesis by (simp add: int_wrap_id)
  qed simp
  have pre: "N = 0 \<or> (0 \<le> int_wrap (i + 1) \<and> int_wrap (i + 1) + int (length ws) \<le> N \<and> is_int N)"
    using Cons.prems(3) wrap by auto
  from Cons.IH[OF rest _ pre] Cons.prems(2)
  obtain j where j: "N = 0 \<or> j = int_wrap (i + 1) + int (length ws)"
    and eq: "pollLoop g ident W T N d (int_wrap (i + 1)) (Sleep d (invoked w))
      = pollLoop g ident W T N d j (after (length ws) d (Sleep d (invoked w)))"
    by auto
  show ?case
  proof (intro exI conjI)
    show "N = 0 \<or> j = i + int (length (s # ws))" using j wrap by auto
    show "pollLoop g ident W T N d i w = pollLoop g ident W T N d j (after (length (s # ws)) d w)"
      using step eq by (simp add: after_Suc)
  qed
qed

text \<open>
  After a prefix of waiting states within the budget, the poll stands before the next
  invocation with its guard true.
\<close>

lemma poll_prefix:
  assumes obs: "observes g ident d w (map Inr ws @ [x])"
    and wait: "list_all (stringSliceContains W) ws"
    and budget: "N = 0 \<or> (int (length ws) < N \<and> is_int N)"
  shows "\<exists>j. (N = 0 \<or> j < N) \<and> g ident (after (length ws) d w) = x \<and>
           waitForResourceToReachState g ident W T N d w
             = pollLoop g ident W T N d j (after (length ws) d w)"
proof -
  from obs have pre: "observes g ident d w (map Inr ws)"
    and last: "g ident (after (length ws) d w) = x"
    by (simp_all add: observes_append)
  from budget have "N = 0 \<or> (0 \<le> (0::int) \<and> 0 + int (length ws) \<le> N \<and> is_int N)" by auto
  from pollLoop_waiting[OF pre wait this, of T]
  obtain j where "N = 0 \<or> j = 0 + int (length ws)"
    and "pollLoop g ident W T N d 0 w = pollLoop g ident W T N d j (after (length ws) d w)"
    by blast
  with budget last show ?thesis
    unfolding waitForResourceToReachState_def by auto
qed

text \<open>What a poll that returns has done, whatever it returns.\<close>

lemma pollLoop_returns:
  assumes run: "pollLoop g ident W T N d i w = Some (r, w')"
  shows "sleeps w \<le> sleeps w' \<and> now w' = now w + int (sleeps w' - sleeps w) * max 0 d
    \<and> (N = 0 \<longrightarrow> (\<forall>v e. g ident v = Inl e \<longrightarrow> e \<noteq> MaxRetriesExceeded n t)
          \<longrightarrow> r \<noteq> Some (MaxRetriesExceeded n t))"
proof -
  let ?P = "\<lambda>g ident (W :: string list) (T :: string) N d (i :: int) w rw.
    sleeps w \<le> sleeps (snd rw) \<and> now (snd rw) = now w + int (sleeps (snd rw) - sleeps w) * max 0 d
    \<and> (N = 0 \<longrightarrow> (\<forall>v e. g ident v = Inl e \<longrightarrow> e \<noteq> MaxRetriesExceeded n t)
          \<longrightarrow> fst rw \<noteq> Some (MaxRetriesExceeded n t))"
  have "?P g ident W T N d i w (r, w')"
  proof (rule pollLoop.raw_induct[where P = ?P, OF _ run])
    fix pl :: "'a getter \<Rightarrow> string \<Rightarrow> string list \<Rightarrow> string \<Rightarrow> int \<Rightarrow> int \<Rightarrow> int \<Rightarrow> world
      \<Rightarrow> ('a error option \<times> world) option"
    fix g ident W T N d i w rw
    assume IH: "\<And>g ident W T N d i w rw. pl g ident W T N d i w = Some rw
        \<Longrightarrow> ?P g ident W T N d i w rw"
    assume eq: "(if N = 0 \<or> i < N then
        (case g ident w of
           Inl err \<Rightarrow> Some (Some err, invoked w)
         | Inr state \<Rightarrow>
             if stringSliceContains W state then
               pl g ident W T N d (int_wrap (i + 1)) (Sleep d (invoked w))
             else if state = T then Some (None, invoked w)
             else Some (Some (UnexpectedState state W T), invoked w))
      else Some (Some (MaxRetriesExceeded N T), w)) = Some rw"
    show "?P g ident W T N d i w rw"
    proof (cases "N = 0 \<or> i < N")
      case False
      with eq show ?thesis by auto
    next
      case guard: True
      show ?thesis
      proof (cases "g ident w")
        case (Inl err)
        with eq guard show ?thesis by (auto simp: invoked_def)
      next
        case (Inr state)
        show ?thesis
        proof (cases "stringSliceContains W state")
          case True
          with eq guard Inr
          have "pl g ident W T N d (int_wrap (i + 1)) (Sleep d (invoked w)) = Some rw" by simp
          from IH[OF this] show ?thesis
            by (auto simp: Sleep_def invoked_def algebra_simps Suc_diff_le)
        next
          case False
          with eq guard Inr show ?thesis by (auto simp: invoked_def split: if_splits)
        qed
      qed
    qed
  qed
  then show ?thesis by simp
qed

text \<open>A poll whose terminal state is one of its waiting states never returns \<open>nil\<close>.\<close>

lemma pollLoop_no_success:
  assumes run: "pollLoop g ident W T N d i w = Some r"
    and mem: "stringSliceContains W T"
  shows "fst r \<noteq> None"
proof -
  have "stringSliceContains W T \<longrightarrow> fst r \<noteq> None"
  proof (rule pollLoop.raw_induct
      [where P = "\<lambda>g ident W T N d i w r. stringSliceContains W T \<longrightarrow> fst r \<noteq> None", OF _ run])
    fix pl :: "'a getter \<Rightarrow> string \<Rightarrow> string list \<Rightarrow> string \<Rightarrow> int \<Rightarrow> int \<Rightarrow> int \<Rightarrow> world
      \<Rightarrow> ('a error option \<times> world) option"
    fix g ident W T N d i w r
    assume IH: "\<And>g ident W T N d i w r. pl g ident W T N d i w = Some r
        \<Longrightarrow> stringSliceContains W T \<longrightarrow> fst r \<noteq> None"
    assume eq: "(if N = 0 \<or> i < N then
        (case g ident w of
           Inl err \<Rightarrow> Some (Some err, invoked w)
         | Inr state \<Rightarrow>
             if stringSliceContains W state then
               pl g ident W T N d (int_wrap (i + 1)) (Sleep d (invoked w))
             else if state = T then Some (None, invoked w)
             else Some (Some (UnexpectedState state W T), invoked w))
      else Some (Some (MaxRetriesExceeded N T), w)) = Some r"
    show "stringSliceContains W T \<longrightarrow> fst r \<noteq> None"
      using IH eq by (auto split: if_splits sum.splits)
  qed
  with mem show ?thesis by simp
qed

subsection \<open>Reaching the terminal state\<close>

text \<open>
  Claim C1, as amended. When the closure yields waiting states followed by the terminal
  state, the terminal state is not itself a waiting state, and the retry budget is
  unlimited (\<open>maxRetries = 0\<close>) or larger than the number of waiting observations, the
  poller returns \<open>nil\<close>; it has invoked the closure once per element of the sequence
  and slept once per waiting observation.
\<close>

theorem poll_reaches_terminal_state:
  assumes "observes g ident d w (map Inr ws @ [Inr T])"
    and "list_all (stringSliceContains W) ws"
    and "\<not> stringSliceContains W T"
    and "N = 0 \<or> (int (length ws) < N \<and> is_int N)"
  shows "waitForResourceToReachState g ident W T N d w
           = Some (None, invoked (after (length ws) d w))
         \<and> fetched (invoked (after (length ws) d w)) = fetched w + length (ws @ [T])
         \<and> sleeps (invoked (after (length ws) d w)) = sleeps w + length ws"
proof -
  from poll_prefix[OF assms(1,2,4), of T]
  obtain j where guard: "N = 0 \<or> j < N"
    and last: "g ident (after (length ws) d w) = Inr T"
    and eq: "waitForResourceToReachState g ident W T N d w
      = pollLoop g ident W T N d j (after (length ws) d w)"
    by blast
  have "pollLoop g ident W T N d j (after (length ws) d w)
      = Some (None, invoked (after (length ws) d w))"
    by (subst pollLoop.simps) (simp add: guard last assms(3))
  with eq show ?thesis by (simp add: after_counts)
qed

theorem poll_reaches_terminal_state_witness:
  "observes (scripted [Inr ''PROVISIONING'', Inr ''PROVISIONING'', Inr ''PROVISIONING'',
       Inr ''RUNNING'']) ''i-1'' (5 * Second) start
     (map Inr [''PROVISIONING'', ''PROVISIONING'', ''PROVISIONING''] @ [Inr ''RUNNING''])
   \<and> list_all (stringSliceContains [''PROVISIONING'']) [''PROVISIONING'', ''PROVISIONING'', ''PROVISIONING'']
   \<and> \<not> stringSliceContains [''PROVISIONING''] ''RUNNING''
   \<and> waitForResourceToReachState
       (scripted [Inr ''PROVISIONING'', Inr ''PROVISIONING'', Inr ''PROVISIONING'',
          Inr ''RUNNING'']) ''i-1'' [''PROVISIONING''] ''RUNNING'' 0 (5 * Second) start
      = Some (None, \<lparr>now = 15000000000, fetched = 4, sleeps = 3\<rparr>)"
  using poll_reaches_terminal_state
    [of "scripted [Inr ''PROVISIONING'', Inr ''PROVISIONING'', Inr ''PROVISIONING'',
       Inr ''RUNNING'']" "''i-1''" "5 * Second" start
       "[''PROVISIONING'', ''PROVISIONING'', ''PROVISIONING'']" "''RUNNING''"
       "[''PROVISIONING'']" 0]
  by (simp add: scripted_def start_def Sleep_def invoked_def after_def Second_def)

text \<open>
  The claim as stated fails in two ways. With a budget of one retry, a waiting state
  followed by the terminal state ends in the exhausted-retries error after a single
  invocation. With the terminal state among the waiting states, its observation is a
  waiting one: the poll sleeps and invokes the closure a third time.
\<close>

theorem poll_reaches_terminal_state_counterexample:
  "waitForResourceToReachState (scripted [Inr ''PROVISIONING'', Inr ''RUNNING''])
       ''i-1'' [''PROVISIONING''] ''RUNNING'' 1 (5 * Second) start
     = Some (Some (MaxRetriesExceeded 1 ''RUNNING''),
         \<lparr>now = 5000000000, fetched = 1, sleeps = 1\<rparr>)
   \<and> waitForResourceToReachState (scripted [Inr ''PROVISIONING'', Inr ''RUNNING''])
       ''i-1'' [''PROVISIONING'', ''RUNNING''] ''RUNNING'' 0 (5 * Second) start
     = Some (Some (Remote ''script exhausted''),
         \<lparr>now = 10000000000, fetched = 3, sleeps = 2\<rparr>)"
  by (simp add: waitForResourceToReachState_def pollLoop.simps scripted_def start_def
      Sleep_def invoked_def Second_def int_wrap_def)

subsection \<open>An unexpected state\<close>

text \<open>
  Claim C2, as amended. When the closure yields waiting states and then, at position
  \<open>k\<close>, a state that is neither a waiting state nor the terminal state, and the retry
  budget is unlimited or larger than \<open>k\<close>, the poller returns the unexpected-state error
  holding the observed state, the waiting states and the terminal state; it has invoked
  the closure \<open>k + 1\<close> times and no more.
\<close>

theorem poll_unexpected_state:
  assumes "observes g ident d w (map Inr ws @ [Inr s])"
    and "list_all (stringSliceContains W) ws"
    and "\<not> stringSliceContains W s"
    and "s \<noteq> T"
    and "N = 0 \<or> (int (length ws) < N \<and> is_int N)"
  shows "waitForResourceToReachState g ident W T N d w
           = Some (Some (UnexpectedState s W T), invoked (after (length ws) d w))
         \<and> fetched (invoked (after (length ws) d w)) = fetched w + length ws + 1"
proof -
  from poll_prefix[OF assms(1,2,5), of T]
  obtain j where guard: "N = 0 \<or> j < N"
    and last: "g ident (after (length ws) d w) = Inr s"
    and eq: "waitForResourceToReachState g ident W T N d w
      = pollLoop g ident W T N d j (after (length ws) d w)"
    by blast
  have "pollLoop g ident W T N d j (after (length ws) d w)
      = Some (Some (UnexpectedState s W T), invoked (after (length ws) d w))"
    by (subst pollLoop.simps) (simp add: guard last assms(3,4))
  with eq show ?thesis by (simp add: after_counts)
qed

theorem poll_unexpected_state_witness:
  "observes (scripted [Inr ''PROVISIONING'', Inr ''TERMINATED'']) ''i-1'' (5 * Second) start
     (map Inr [''PROVISIONING''] @ [Inr ''TERMINATED''])
   \<and> list_all (stringSliceContains [''PROVISIONING'']) [''PROVISIONING'']
   \<and> \<not> stringSliceContains [''PROVISIONING''] ''TERMINATED''
   \<and> ''TERMINATED'' \<noteq> ''RUNNING''
   \<and> waitForResourceToReachState (scripted [Inr ''PROVISIONING'', Inr ''TERMINATED''])
       ''i-1'' [''PROVISIONING''] ''RUNNING'' 0 (5 * Second) start
      = Some (Some (UnexpectedState ''TERMINATED'' [''PROVISIONING''] ''RUNNING''),
          \<lparr>now = 5000000000, fetched = 2, sleeps = 1\<rparr>)"
  using poll_unexpected_state
    [of "scripted [Inr ''PROVISIONING'', Inr ''TERMINATED'']" "''i-1''" "5 * Second" start
       "[''PROVISIONING'']" "''TERMINATED''" "[''PROVISIONING'']" "''RUNNING''" 0]
  by (simp add: scripted_def start_def Sleep_def invoked_def after_def Second_def)

text \<open>
  The claim as stated fails when the poll ends before position \<open>k\<close>. A closure that
  yields the terminal state and then, at position 1, a state outside both sets: the poll
  returns \<open>nil\<close> after one invocation. With a budget of one retry, a waiting state and
  then such a state at position 1: the poll returns the exhausted-retries error after one
  invocation.
\<close>

theorem poll_unexpected_state_counterexample:
  "scripted [Inr ''RUNNING'', Inr ''TERMINATED''] ''i-1'' \<lparr>now = 0, fetched = 1, sleeps = 0\<rparr>
     = Inr ''TERMINATED''
   \<and> waitForResourceToReachState (scripted [Inr ''RUNNING'', Inr ''TERMINATED''])
       ''i-1'' [''PROVISIONING''] ''RUNNING'' 0 (5 * Second) start
     = Some (None, \<lparr>now = 0, fetched = 1, sleeps = 0\<rparr>)
   \<and> waitForResourceToReachState (scripted [Inr ''PROVISIONING'', Inr ''TERMINATED''])
       ''i-1'' [''PROVISIONING''] ''RUNNING'' 1 (5 * Second) start
     = Some (Some (MaxRetriesExceeded 1 ''RUNNING''),
         \<lparr>now = 5000000000, fetched = 1, sleeps = 1\<rparr>)"
  by (simp add: waitForResourceToReachState_def pollLoop.simps scripted_def start_def
      Sleep_def invoked_def Second_def int_wrap_def)

subsection \<open>Exhausting the retry budget\<close>

text \<open>
  Claim C3. With a retry budget \<open>N > 0\<close> and a closure that yields waiting states only,
  the poller returns the exhausted-retries error, which holds \<open>N\<close> and the terminal state,
  after exactly \<open>N\<close> invocations of the closure.
\<close>

theorem poll_exhausts_retries:
  assumes "0 < N" and "is_int N"
    and "length ws = nat N"
    and "list_all (stringSliceContains W) ws"
    and "observes g ident d w (map Inr ws)"
  shows "waitForResourceToReachState g ident W T N d w
           = Some (Some (MaxRetriesExceeded N T), after (nat N) d w)
         \<and> fetched (after (nat N) d w) = fetched w + nat N"
proof -
  have "N = 0 \<or> (0 \<le> (0::int) \<and> 0 + int (length ws) \<le> N \<and> is_int N)"
    using assms(1,2,3) by simp
  from pollLoop_waiting[OF assms(5,4) this, of T]
  obtain j where "N = 0 \<or> j = 0 + int (length ws)"
    and eq: "pollLoop g ident W T N d 0 w = pollLoop g ident W T N d j (after (length ws) d w)"
    by blast
  with assms(1,3) have j: "j = N" by simp
  have "pollLoop g ident W T N d N (after (nat N) d w)
      = Some (Some (MaxRetriesExceeded N T), after (nat N) d w)"
    by (subst pollLoop.simps) (use assms(1) in simp)
  with eq j assms(3) show ?thesis
    by (simp add: waitForResourceToReachState_def after_counts)
qed

theorem poll_exhausts_retries_witness:
  "(0::int) < 2 \<and> is_int 2
   \<and> length [''PROVISIONING'', ''STARTING''] = nat 2
   \<and> list_all (stringSliceContains [''PROVISIONING'', ''STARTING'']) [''PROVISIONING'', ''STARTING'']
   \<and> observes (scripted [Inr ''PROVISIONING'', Inr ''STARTING'', Inr ''RUNNING''])
       ''i-1'' (5 * Second) start (map Inr [''PROVISIONING'', ''STARTING''])
   \<and> waitForResourceToReachState
       (scripted [Inr ''PROVISIONING'', Inr ''STARTING'', Inr ''RUNNING''])
       ''i-1'' [''PROVISIONING'', ''STARTING''] ''RUNNING'' 2 (5 * Second) start
      = Some (Some (MaxRetriesExceeded 2 ''RUNNING''),
          \<lparr>now = 10000000000, fetched = 2, sleeps = 2\<rparr>)"
  using poll_exhausts_retries
    [of 2 "[''PROVISIONING'', ''STARTING'']" "[''PROVISIONING'', ''STARTING'']"
       "scripted [Inr ''PROVISIONING'', Inr ''STARTING'', Inr ''RUNNING'']" "''i-1''"
       "5 * Second" start "''RUNNING''"]
  by (simp add: scripted_def start_def Sleep_def invoked_def after_def Second_def is_int_def)

subsection \<open>A terminal state that is also a waiting state\<close>

text \<open>
  Claim C10. When the terminal state is one of the waiting states, the membership test
  comes first: an observation of that state, made while the guard of the loop holds,
  leads to the sleep and the next iteration with the counter incremented, and the poll
  never returns \<open>nil\<close>.
\<close>

theorem poll_waiting_states_take_precedence:
  assumes "stringSliceContains W T"
  shows "(g ident w = Inr T \<and> (N = 0 \<or> i < N) \<longrightarrow>
            pollLoop g ident W T N d i w
              = pollLoop g ident W T N d (int_wrap (i + 1)) (Sleep d (invoked w)))
         \<and> waitForResourceToReachState g ident W T N d w \<noteq> Some (None, w')"
proof (intro conjI impI)
  assume "g ident w = Inr T \<and> (N = 0 \<or> i < N)"
  then show "pollLoop g ident W T N d i w
      = pollLoop g ident W T N d (int_wrap (i + 1)) (Sleep d (invoked w))"
    by (subst pollLoop.simps) (simp add: assms)
next
  show "waitForResourceToReachState g ident W T N d w \<noteq> Some (None, w')"
    using pollLoop_no_success[OF _ assms, of g ident N d 0 w "(None, w')"]
    by (auto simp: waitForResourceToReachState_def)
qed

theorem poll_waiting_states_take_precedence_witness:
  "stringSliceContains [''PROVISIONING'', ''RUNNING''] ''RUNNING''
   \<and> scripted [Inr ''RUNNING''] ''i-1'' start = Inr ''RUNNING''
   \<and> pollLoop (scripted [Inr ''RUNNING'']) ''i-1'' [''PROVISIONING'', ''RUNNING''] ''RUNNING''
       2 (5 * Second) 0 start
     = pollLoop (scripted [Inr ''RUNNING'']) ''i-1'' [''PROVISIONING'', ''RUNNING''] ''RUNNING''
         2 (5 * Second) (int_wrap (0 + 1)) (Sleep (5 * Second) (invoked start))
   \<and> waitForResourceToReachState (scripted [Inr ''RUNNING'']) ''i-1''
       [''PROVISIONING'', ''RUNNING''] ''RUNNING'' 2 (5 * Second) start
     \<noteq> Some (None, \<lparr>now = 0, fetched = 1, sleeps = 0\<rparr>)"
  using poll_waiting_states_take_precedence
    [of "[''PROVISIONING'', ''RUNNING'']" "''RUNNING''" "scripted [Inr ''RUNNING'']" "''i-1''"
       start 2 0 "5 * Second" "\<lparr>now = 0, fetched = 1, sleeps = 0\<rparr>"]
  by (simp add: scripted_def start_def)

section \<open>Properties of the driver\<close>

subsection \<open>Auxiliary facts\<close>

lemma launchSources_append:
  "launchSources (xs @ ys) = launchSources xs @ launchSources ys"
  by (induction xs rule: launchSources.induct) simp_all

text \<open>\<open>launchFrom\<close> issues one launch call, whose source is the surrogate volume if there is one.\<close>

lemma launchFrom_calls:
  "\<exists>details. snd (launchFrom d metadata imageId surrogateVolumeId calls)
       = calls @ [LaunchInstanceCall TODO details]
     \<and> la_SourceDetails details =
         (if surrogateVolumeId \<noteq> '''' then InstanceSourceViaBootVolumeDetails surrogateVolumeId
          else InstanceSourceViaImageDetails imageId (BootVolumeSizeInGBs (cfg d)))"
  unfolding launchFrom_def Let_def
  by (cases "LaunchInstance (computeClient d) TODO
         \<lparr>la_AvailabilityDomain = AvailabilityDomain (cfg d),
          la_CompartmentId = CompartmentID (cfg d),
          la_Shape = Shape (cfg d),
          la_Metadata = metadata,
          la_SubnetId = SubnetID (cfg d),
          la_SourceDetails =
            (if surrogateVolumeId \<noteq> '''' then InstanceSourceViaBootVolumeDetails surrogateVolumeId
             else InstanceSourceViaImageDetails imageId (BootVolumeSizeInGBs (cfg d))),
          la_DisplayName =
            (if InstanceName (cfg d) \<noteq> '''' then Some (InstanceName (cfg d)) else None)\<rparr>")
    (auto split: option.splits)

lemma launchFrom_sources:
  "launchSources (snd (launchFrom d metadata imageId surrogateVolumeId calls))
     = launchSources calls @
       [if surrogateVolumeId \<noteq> '''' then InstanceSourceViaBootVolumeDetails surrogateVolumeId
        else InstanceSourceViaImageDetails imageId (BootVolumeSizeInGBs (cfg d))]"
  using launchFrom_calls[of d metadata imageId surrogateVolumeId calls]
  by (auto simp: launchSources_append)

lemma launchFrom_lookups:
  "filter isListImages (snd (launchFrom d metadata imageId surrogateVolumeId calls))
     = filter isListImages calls"
  using launchFrom_calls[of d metadata imageId surrogateVolumeId calls] by auto

lemma launchFrom_hd:
  "calls \<noteq> [] \<Longrightarrow> hd (snd (launchFrom d metadata imageId surrogateVolumeId calls)) = hd calls"
  using launchFrom_calls[of d metadata imageId surrogateVolumeId calls] by auto

text \<open>The paths through \<open>CreateInstance\<close>, by the base image name and the answer of the lookup.\<close>

lemma CreateInstance_without_name:
  assumes "BaseImageName (cfg d) = ''''"
  shows "CreateInstance d ctx publicKey surrogateVolumeId
    = launchFrom d (instanceMetadata (cfg d) publicKey) (BaseImageID (cfg d)) surrogateVolumeId []"
  using assms by (simp add: CreateInstance_def Let_def)

lemma CreateInstance_found:
  assumes "BaseImageName (cfg d) \<noteq> ''''"
    and "ListImages (computeClient d) TODO
           \<lparr>li_CompartmentId = CompartmentID (cfg d), li_DisplayName = BaseImageName (cfg d)\<rparr>
         = Inr (img # rest)"
    and "image_Id img = Some imageId"
  shows "CreateInstance d ctx publicKey surrogateVolumeId
    = launchFrom d (instanceMetadata (cfg d) publicKey) imageId surrogateVolumeId
        [ListImagesCall TODO
          \<lparr>li_CompartmentId = CompartmentID (cfg d), li_DisplayName = BaseImageName (cfg d)\<rparr>]"
  using assms by (simp add: CreateInstance_def Let_def)

lemma CreateInstance_with_name:
  assumes "BaseImageName (cfg d) \<noteq> ''''"
  shows "snd (CreateInstance d ctx publicKey surrogateVolumeId)
      = [ListImagesCall TODO
          \<lparr>li_CompartmentId = CompartmentID (cfg d), li_DisplayName = BaseImageName (cfg d)\<rparr>]
    \<or> (\<exists>imageId.
         CreateInstance d ctx publicKey surrogateVolumeId
           = launchFrom d (instanceMetadata (cfg d) publicKey) imageId surrogateVolumeId
               [ListImagesCall TODO
                 \<lparr>li_CompartmentId = CompartmentID (cfg d),
                  li_DisplayName = BaseImageName (cfg d)\<rparr>])"
proof -
  let ?req = "\<lparr>li_CompartmentId = CompartmentID (cfg d), li_DisplayName = BaseImageName (cfg d)\<rparr>"
  show ?thesis
  proof (cases "ListImages (computeClient d) TODO ?req")
    case (Inl err)
    with assms show ?thesis by (simp add: CreateInstance_def Let_def)
  next
    case (Inr items)
    show ?thesis
    proof (cases items)
      case Nil
      with Inr assms show ?thesis by (simp add: CreateInstance_def Let_def)
    next
      case (Cons img rest)
      show ?thesis
      proof (cases "image_Id img")
        case None
        with Cons Inr assms show ?thesis by (simp add: CreateInstance_def Let_def)
      next
        case (Some imageId)
        from CreateInstance_found[OF assms _ Some, of rest ctx publicKey surrogateVolumeId]
          Inr Cons
        show ?thesis by blast
      qed
    qed
  qed
qed

subsection \<open>CreateInstance with a base image name\<close>

text \<open>
  When the lookup by name returns a first image with an id and no surrogate volume is
  given, \<open>CreateInstance\<close> issues one \<open>ListImages\<close> call and then launches from the
  image of that id.
\<close>

lemma CreateInstance_by_name:
  assumes "BaseImageName (cfg d) \<noteq> ''''"
    and "ListImages (computeClient d) TODO
           \<lparr>li_CompartmentId = CompartmentID (cfg d), li_DisplayName = BaseImageName (cfg d)\<rparr>
         = Inr (img # rest)"
    and "image_Id img = Some imageId"
  shows "length (filter isListImages (snd (CreateInstance d ctx publicKey ''''))) = 1
    \<and> isListImages (hd (snd (CreateInstance d ctx publicKey '''')))
    \<and> launchSources (snd (CreateInstance d ctx publicKey ''''))
        = [InstanceSourceViaImageDetails imageId (BootVolumeSizeInGBs (cfg d))]"
  by (simp add: CreateInstance_found[OF assms] launchFrom_sources launchFrom_lookups
      launchFrom_hd)

text \<open>
  Claim C4, at the input where the code departs from it. When the lookup by name returns
  no image, \<open>CreateInstance\<close> indexes the empty result: it panics instead of returning
  an error. No launch call has been issued.
\<close>

theorem CreateInstance_zero_matches_panics:
  assumes "BaseImageName (cfg d) \<noteq> ''''"
    and "ListImages (computeClient d) TODO
           \<lparr>li_CompartmentId = CompartmentID (cfg d), li_DisplayName = BaseImageName (cfg d)\<rparr>
         = Inr []"
  shows "CreateInstance d ctx publicKey surrogateVolumeId
    = (Panic IndexOutOfRange,
       [ListImagesCall TODO
         \<lparr>li_CompartmentId = CompartmentID (cfg d), li_DisplayName = BaseImageName (cfg d)\<rparr>])"
  using assms by (simp add: CreateInstance_def Let_def)

theorem CreateInstance_zero_matches_panics_witness:
  "CreateInstance
     (canned (config '''' ''my-image'' False) [] [] [] \<lparr>PrivateIp = None, PublicIp = None\<rparr> [])
     TODO ''ssh-rsa AAAA'' ''''
   = (Panic IndexOutOfRange,
      [ListImagesCall TODO \<lparr>li_CompartmentId = ''compartment'', li_DisplayName = ''my-image''\<rparr>])"
  using CreateInstance_zero_matches_panics
    [of "canned (config '''' ''my-image'' False) [] [] [] \<lparr>PrivateIp = None, PublicIp = None\<rparr> []"
       TODO "''ssh-rsa AAAA''" "''''"]
  by (simp add: canned_def config_def)

subsection \<open>CreateInstance with a surrogate volume\<close>

text \<open>
  Claim C5, as amended. With a non-empty surrogate volume id, every launch that
  \<open>CreateInstance\<close> issues has that boot volume, not an image, as its source. The image
  lookup depends on the base image name alone: without a name no lookup is issued and the
  instance is launched from the volume; with a name exactly one lookup is issued, as the
  first call.
\<close>

theorem CreateInstance_surrogate_volume:
  assumes "surrogateVolumeId \<noteq> ''''"
  shows "set (launchSources (snd (CreateInstance d ctx publicKey surrogateVolumeId)))
           \<subseteq> {InstanceSourceViaBootVolumeDetails surrogateVolumeId}
    \<and> (BaseImageName (cfg d) = '''' \<longrightarrow>
          filter isListImages (snd (CreateInstance d ctx publicKey surrogateVolumeId)) = []
          \<and> launchSources (snd (CreateInstance d ctx publicKey surrogateVolumeId))
              = [InstanceSourceViaBootVolumeDetails surrogateVolumeId])
    \<and> (BaseImageName (cfg d) \<noteq> '''' \<longrightarrow>
          length (filter isListImages (snd (CreateInstance d ctx publicKey surrogateVolumeId))) = 1
          \<and> isListImages (hd (snd (CreateInstance d ctx publicKey surrogateVolumeId))))"
proof (cases "BaseImageName (cfg d) = ''''")
  case True
  with assms show ?thesis
    by (simp add: CreateInstance_without_name launchFrom_sources launchFrom_lookups)
next
  case False
  from CreateInstance_with_name[OF False, of ctx publicKey surrogateVolumeId]
  show ?thesis
  proof (elim disjE exE)
    assume "snd (CreateInstance d ctx publicKey surrogateVolumeId)
      = [ListImagesCall TODO
          \<lparr>li_CompartmentId = CompartmentID (cfg d), li_DisplayName = BaseImageName (cfg d)\<rparr>]"
    with False show ?thesis by simp
  next
    fix imageId
    assume "CreateInstance d ctx publicKey surrogateVolumeId
      = launchFrom d (instanceMetadata (cfg d) publicKey) imageId surrogateVolumeId
          [ListImagesCall TODO
            \<lparr>li_CompartmentId = CompartmentID (cfg d),
             li_DisplayName = BaseImageName (cfg d)\<rparr>]"
    with False assms show ?thesis
      by (simp add: launchFrom_sources launchFrom_lookups launchFrom_hd)
  qed
qed

theorem CreateInstance_surrogate_volume_witness:
  "''ocid1.bootvolume.clone'' \<noteq> ''''
   \<and> BaseImageName (cfg (canned (config ''ocid1.image.base'' '''' False) [] [] []
        \<lparr>PrivateIp = None, PublicIp = None\<rparr> [])) = ''''
   \<and> filter isListImages (snd (CreateInstance
        (canned (config ''ocid1.image.base'' '''' False) [] [] []
           \<lparr>PrivateIp = None, PublicIp = None\<rparr> [])
        TODO ''ssh-rsa AAAA'' ''ocid1.bootvolume.clone'')) = []
   \<and> launchSources (snd (CreateInstance
        (canned (config ''ocid1.image.base'' '''' False) [] [] []
           \<lparr>PrivateIp = None, PublicIp = None\<rparr> [])
        TODO ''ssh-rsa AAAA'' ''ocid1.bootvolume.clone''))
      = [InstanceSourceViaBootVolumeDetails ''ocid1.bootvolume.clone'']
   \<and> BaseImageName (cfg (canned (config '''' ''my-image'' False) [] [] []
        \<lparr>PrivateIp = None, PublicIp = None\<rparr> [])) \<noteq> ''''
   \<and> length (filter isListImages (snd (CreateInstance
        (canned (config '''' ''my-image'' False) [] [] []
           \<lparr>PrivateIp = None, PublicIp = None\<rparr> [])
        TODO ''ssh-rsa AAAA'' ''ocid1.bootvolume.clone''))) = 1"
  using CreateInstance_surrogate_volume
    [of "''ocid1.bootvolume.clone''"
       "canned (config ''ocid1.image.base'' '''' False) [] [] []
          \<lparr>PrivateIp = None, PublicIp = None\<rparr> []"
       TODO "''ssh-rsa AAAA''"]
    CreateInstance_surrogate_volume
    [of "''ocid1.bootvolume.clone''"
       "canned (config '''' ''my-image'' False) [] [] []
          \<lparr>PrivateIp = None, PublicIp = None\<rparr> []"
       TODO "''ssh-rsa AAAA''"]
  by (simp add: canned_def config_def)

text \<open>
  The claim as stated fails: with a base image name configured, the lookup is issued
  although the instance is then launched from the surrogate volume.
\<close>

theorem CreateInstance_surrogate_volume_counterexample:
  "CreateInstance
     (canned (config '''' ''my-image'' False)
        [\<lparr>image_Id = Some ''ocid1.image.found'', image_LifecycleState = ''AVAILABLE''\<rparr>]
        [] [] \<lparr>PrivateIp = None, PublicIp = None\<rparr> [])
     TODO ''ssh-rsa AAAA'' ''ocid1.bootvolume.clone''
   = (Return ''i-1'' None,
      [ListImagesCall TODO \<lparr>li_CompartmentId = ''compartment'', li_DisplayName = ''my-image''\<rparr>,
       LaunchInstanceCall TODO
         \<lparr>la_AvailabilityDomain = ''AD-1'',
          la_CompartmentId = ''compartment'',
          la_Shape = ''VM.Standard2.1'',
          la_Metadata = [''ssh_authorized_keys'' \<mapsto> ''ssh-rsa AAAA''],
          la_SubnetId = ''subnet'',
          la_SourceDetails = InstanceSourceViaBootVolumeDetails ''ocid1.bootvolume.clone'',
          la_DisplayName = None\<rparr>])"
  by (simp add: CreateInstance_def launchFrom_def instanceMetadata_def canned_def config_def)

subsection \<open>CreateBootClone\<close>

text \<open>
  When the instance has a boot volume attachment, \<open>CreateBootClone\<close> asks for a boot
  volume whose source is the boot volume of the first attachment.
\<close>

lemma CreateBootClone_first_attachment:
  assumes "ListBootVolumeAttachments (computeClient d) ctx
           \<lparr>lb_AvailabilityDomain = AvailabilityDomain (cfg d),
            lb_CompartmentId = CompartmentID (cfg d), lb_InstanceId = InstanceId\<rparr>
         = Inr (attachment # rest)"
  shows "cloneSources (snd (CreateBootClone d ctx InstanceId)) = [BootVolumeId attachment]"
  using assms
  by (simp add: CreateBootClone_def Let_def split: sum.splits option.splits)

text \<open>
  Claim C6, at the input where the code departs from it. When the instance has no boot
  volume attachment, \<open>CreateBootClone\<close> indexes the empty result: it panics instead of
  returning an error that names the missing attachment.
\<close>

theorem CreateBootClone_zero_attachments_panics:
  assumes "ListBootVolumeAttachments (computeClient d) ctx
           \<lparr>lb_AvailabilityDomain = AvailabilityDomain (cfg d),
            lb_CompartmentId = CompartmentID (cfg d), lb_InstanceId = InstanceId\<rparr>
         = Inr []"
  shows "CreateBootClone d ctx InstanceId
    = (Panic IndexOutOfRange,
       [ListBootVolumeAttachmentsCall ctx
         \<lparr>lb_AvailabilityDomain = AvailabilityDomain (cfg d),
          lb_CompartmentId = CompartmentID (cfg d), lb_InstanceId = InstanceId\<rparr>])"
  using assms by (simp add: CreateBootClone_def Let_def)

theorem CreateBootClone_zero_attachments_panics_witness:
  "CreateBootClone
     (canned (config ''ocid1.image.base'' '''' False) [] [] []
        \<lparr>PrivateIp = None, PublicIp = None\<rparr> [])
     TODO ''i-1''
   = (Panic IndexOutOfRange,
      [ListBootVolumeAttachmentsCall TODO
        \<lparr>lb_AvailabilityDomain = ''AD-1'', lb_CompartmentId = ''compartment'',
         lb_InstanceId = ''i-1''\<rparr>])"
  using CreateBootClone_zero_attachments_panics
    [of "canned (config ''ocid1.image.base'' '''' False) [] [] []
          \<lparr>PrivateIp = None, PublicIp = None\<rparr> []" TODO "''i-1''"]
  by (simp add: canned_def config_def)

subsection \<open>GetInstanceIP\<close>

text \<open>
  Claim C8. When the list of VNIC attachments is empty, \<open>GetInstanceIP\<close> returns the
  zero-VNICs error. When the private address is preferred, it returns the private address
  of the first VNIC, whether or not that VNIC has a public address. When the public
  address is preferred and the first VNIC has none, it returns an error that names the
  instance, not a \<open>nil\<close> error with an empty address.
\<close>

theorem GetInstanceIP_addresses:
  "(ListVnicAttachments (computeClient d) ctx
       \<lparr>lv_InstanceId = ident, lv_CompartmentId = CompartmentID (cfg d)\<rparr> = Inr []
     \<longrightarrow> GetInstanceIP d ctx ident = Return '''' (Some ZeroVNICs))
   \<and> (ListVnicAttachments (computeClient d) ctx
         \<lparr>lv_InstanceId = ident, lv_CompartmentId = CompartmentID (cfg d)\<rparr> = Inr (a # rest)
       \<and> GetVnic (vcnClient d) ctx (VnicId a) = Inr vnic
       \<and> UsePrivateIP (cfg d) \<and> PrivateIp vnic = Some ip
     \<longrightarrow> GetInstanceIP d ctx ident = Return ip None)
   \<and> (ListVnicAttachments (computeClient d) ctx
         \<lparr>lv_InstanceId = ident, lv_CompartmentId = CompartmentID (cfg d)\<rparr> = Inr (a # rest)
       \<and> GetVnic (vcnClient d) ctx (VnicId a) = Inr vnic
       \<and> \<not> UsePrivateIP (cfg d) \<and> PublicIp vnic = None
     \<longrightarrow> GetInstanceIP d ctx ident = Return '''' (Some (NoPublicIp ident)))"
  by (simp add: GetInstanceIP_def)

theorem GetInstanceIP_addresses_witness:
  "GetInstanceIP
     (canned (config ''ocid1.image.base'' '''' True) [] [] []
        \<lparr>PrivateIp = Some ''10.0.0.2'', PublicIp = None\<rparr> [])
     TODO ''i-1'' = Return '''' (Some ZeroVNICs)
   \<and> GetInstanceIP
     (canned (config ''ocid1.image.base'' '''' True) [] [] [\<lparr>VnicId = Some ''vnic-1''\<rparr>]
        \<lparr>PrivateIp = Some ''10.0.0.2'', PublicIp = None\<rparr> [])
     TODO ''i-1'' = Return ''10.0.0.2'' None
   \<and> GetInstanceIP
     (canned (config ''ocid1.image.base'' '''' False) [] [] [\<lparr>VnicId = Some ''vnic-1''\<rparr>]
        \<lparr>PrivateIp = Some ''10.0.0.2'', PublicIp = None\<rparr> [])
     TODO ''i-1'' = Return '''' (Some (NoPublicIp ''i-1''))"
  using GetInstanceIP_addresses
    [of "canned (config ''ocid1.image.base'' '''' True) [] [] []
          \<lparr>PrivateIp = Some ''10.0.0.2'', PublicIp = None\<rparr> []" TODO "''i-1''"]
    GetInstanceIP_addresses
    [of "canned (config ''ocid1.image.base'' '''' True) [] [] [\<lparr>VnicId = Some ''vnic-1''\<rparr>]
          \<lparr>PrivateIp = Some ''10.0.0.2'', PublicIp = None\<rparr> []" TODO "''i-1''"
       "\<lparr>VnicId = Some ''vnic-1''\<rparr>" "[]"
       "\<lparr>PrivateIp = Some ''10.0.0.2'', PublicIp = None\<rparr>" "''10.0.0.2''"]
    GetInstanceIP_addresses
    [of "canned (config ''ocid1.image.base'' '''' False) [] [] [\<lparr>VnicId = Some ''vnic-1''\<rparr>]
          \<lparr>PrivateIp = Some ''10.0.0.2'', PublicIp = None\<rparr> []" TODO "''i-1''"
       "\<lparr>VnicId = Some ''vnic-1''\<rparr>" "[]"
       "\<lparr>PrivateIp = Some ''10.0.0.2'', PublicIp = None\<rparr>"]
  by (simp add: canned_def config_def)

section \<open>Properties of the wait operations\<close>

subsection \<open>Auxiliary facts\<close>

text \<open>The closures of the wait operations hand on errors of the SDK and no others.\<close>

lemma state_closure_errors:
  "imageState d ctx ident arg v = Inl e \<Longrightarrow> e \<noteq> MaxRetriesExceeded n t"
  "instanceState d ctx ident arg v = Inl e \<Longrightarrow> e \<noteq> MaxRetriesExceeded n t"
  "bootVolumeState d ctx ident arg v = Inl e \<Longrightarrow> e \<noteq> MaxRetriesExceeded n t"
  "volumeAttachmentState d ctx ident arg v = Inl e \<Longrightarrow> e \<noteq> MaxRetriesExceeded n t"
  by (auto simp: imageState_def instanceState_def bootVolumeState_def volumeAttachmentState_def
      split: sum.splits)

text \<open>A poll without a retry budget that sleeps five seconds, when it returns.\<close>

lemma unlimited_poll_returns:
  assumes run: "waitForResourceToReachState g ident W T 0 (5 * Second) w = Some (r, w')"
    and errs: "\<And>v e. g ident v = Inl e \<Longrightarrow> e \<noteq> MaxRetriesExceeded n t"
  shows "r \<noteq> Some (MaxRetriesExceeded n t)
    \<and> now w' = now w + int (sleeps w' - sleeps w) * 5000000000"
proof -
  from run have "pollLoop g ident W T 0 (5 * Second) 0 w = Some (r, w')"
    by (simp add: waitForResourceToReachState_def)
  from pollLoop_returns[OF this, of n t] errs show ?thesis
    by (auto simp: Second_def)
qed

subsection \<open>Cancellation\<close>

text \<open>
  Claim C7, as amended. The poll loop does not consult the caller's context: the context
  reaches only the remote get call that the closure makes. When, after \<open>k\<close> waiting
  observations, the closure returns an error, as the remote call does under a cancelled
  context, the wait returns that error at once; by then it has slept \<open>k\<close> times five
  seconds, each sleep in full, and has invoked the closure \<open>k + 1\<close> times.
\<close>

theorem wait_returns_error_of_fetch:
  assumes "observes (instanceState d ctx ident) ident (5 * Second) w (map Inr ws @ [Inl err])"
    and "list_all (stringSliceContains waitStates) ws"
  shows "WaitForInstanceState d ctx ident waitStates terminalState w
           = Some (Some err, invoked (after (length ws) (5 * Second) w))
         \<and> now (invoked (after (length ws) (5 * Second) w))
             = now w + int (length ws) * 5000000000
         \<and> fetched (invoked (after (length ws) (5 * Second) w)) = fetched w + length ws + 1
         \<and> sleeps (invoked (after (length ws) (5 * Second) w)) = sleeps w + length ws"
proof -
  let ?g = "instanceState d ctx ident"
  let ?w = "after (length ws) (5 * Second) w"
  have "(0::int) = 0 \<or> (int (length ws) < 0 \<and> is_int 0)" by simp
  from poll_prefix[OF assms this, of terminalState]
  obtain j where last: "?g ident ?w = Inl err"
    and eq: "waitForResourceToReachState ?g ident waitStates terminalState 0 (5 * Second) w
      = pollLoop ?g ident waitStates terminalState 0 (5 * Second) j ?w"
    by blast
  have "pollLoop ?g ident waitStates terminalState 0 (5 * Second) j ?w
      = Some (Some err, invoked ?w)"
    by (subst pollLoop.simps) (simp add: last)
  with eq show ?thesis
    by (simp add: WaitForInstanceState_def after_counts Second_def)
qed

theorem wait_returns_error_of_fetch_witness:
  "observes
     (instanceState
        (canned (config ''ocid1.image.base'' '''' False) [] [] []
           \<lparr>PrivateIp = None, PublicIp = None\<rparr>
           [''PROVISIONING'', ''PROVISIONING'', ''PROVISIONING'', ''RUNNING''])
        (Context (Some 7000000000)) ''i-1'')
     ''i-1'' (5 * Second) start
     (map Inr [''PROVISIONING'', ''PROVISIONING''] @ [Inl (Remote ''context canceled'')])
   \<and> list_all (stringSliceContains [''PROVISIONING'']) [''PROVISIONING'', ''PROVISIONING'']
   \<and> WaitForInstanceState
       (canned (config ''ocid1.image.base'' '''' False) [] [] []
          \<lparr>PrivateIp = None, PublicIp = None\<rparr>
          [''PROVISIONING'', ''PROVISIONING'', ''PROVISIONING'', ''RUNNING''])
       (Context (Some 7000000000)) ''i-1'' [''PROVISIONING''] ''RUNNING'' start
     = Some (Some (Remote ''context canceled''),
         \<lparr>now = 10000000000, fetched = 3, sleeps = 2\<rparr>)"
  using wait_returns_error_of_fetch
    [of "canned (config ''ocid1.image.base'' '''' False) [] [] []
           \<lparr>PrivateIp = None, PublicIp = None\<rparr>
           [''PROVISIONING'', ''PROVISIONING'', ''PROVISIONING'', ''RUNNING'']"
       "Context (Some 7000000000)" "''i-1''" start "[''PROVISIONING'', ''PROVISIONING'']"
       "Remote ''context canceled''" "[''PROVISIONING'']" "''RUNNING''"]
  by (simp add: instanceState_def canned_def polled_def start_def Sleep_def invoked_def
      after_def Second_def)

text \<open>
  The claim as stated fails. A wait for an instance that stays in its waiting state, under
  a context that is cancelled one second after the start, during the first sleep: the
  sleep runs its five seconds, the closure is invoked a second time, and only the error
  of that remote call ends the wait.
\<close>

theorem wait_cancelled_during_sleep_counterexample:
  "WaitForInstanceState
     (canned (config ''ocid1.image.base'' '''' False) [] [] []
        \<lparr>PrivateIp = None, PublicIp = None\<rparr> [''PROVISIONING'', ''PROVISIONING'', ''RUNNING''])
     (Context (Some 1000000000)) ''i-1'' [''PROVISIONING''] ''RUNNING'' start
   = Some (Some (Remote ''context canceled''),
       \<lparr>now = 5000000000, fetched = 2, sleeps = 1\<rparr>)"
  by (simp add: WaitForInstanceState_def waitForResourceToReachState_def pollLoop.simps
      instanceState_def canned_def polled_def start_def Sleep_def invoked_def Second_def
      int_wrap_def)

subsection \<open>Retries and delay of the wait operations\<close>

text \<open>
  Claim C9. Each of the four wait operations is the poller with \<open>maxRetries = 0\<close> and a
  delay of five seconds, and the wait for an image has the waiting state \<open>PROVISIONING\<close>
  and the terminal state \<open>AVAILABLE\<close>. Accordingly, whenever one of them returns, it does
  not return the exhausted-retries error, and the time it has slept is five seconds for
  each of its sleeps.
\<close>

theorem wait_operations_unlimited_fixed_delay:
  "WaitForImageCreation d ctx ident
     = waitForResourceToReachState (imageState d ctx ident) ident
         [''PROVISIONING''] ''AVAILABLE'' 0 (5 * Second)
   \<and> WaitForInstanceState d ctx ident waitStates terminalState
     = waitForResourceToReachState (instanceState d ctx ident) ident
         waitStates terminalState 0 (5 * Second)
   \<and> WaitForBootVolumeState d ctx ident waitStates terminalState
     = waitForResourceToReachState (bootVolumeState d ctx ident) ident
         waitStates terminalState 0 (5 * Second)
   \<and> WaitForVolumeAttachmentState d ctx ident waitStates terminalState
     = waitForResourceToReachState (volumeAttachmentState d ctx ident) ident
         waitStates terminalState 0 (5 * Second)
   \<and> (WaitForImageCreation d ctx ident w = Some (r, w')
       \<or> WaitForInstanceState d ctx ident waitStates terminalState w = Some (r, w')
       \<or> WaitForBootVolumeState d ctx ident waitStates terminalState w = Some (r, w')
       \<or> WaitForVolumeAttachmentState d ctx ident waitStates terminalState w = Some (r, w')
      \<longrightarrow> r \<noteq> Some (MaxRetriesExceeded n t)
          \<and> now w' = now w + int (sleeps w' - sleeps w) * 5000000000)"
proof (intro conjI impI)
  assume "WaitForImageCreation d ctx ident w = Some (r, w')
       \<or> WaitForInstanceState d ctx ident waitStates terminalState w = Some (r, w')
       \<or> WaitForBootVolumeState d ctx ident waitStates terminalState w = Some (r, w')
       \<or> WaitForVolumeAttachmentState d ctx ident waitStates terminalState w = Some (r, w')"
  then have both: "r \<noteq> Some (MaxRetriesExceeded n t)
      \<and> now w' = now w + int (sleeps w' - sleeps w) * 5000000000"
    unfolding WaitForImageCreation_def WaitForInstanceState_def WaitForBootVolumeState_def
      WaitForVolumeAttachmentState_def
  proof (elim disjE)
    assume "waitForResourceToReachState (imageState d ctx ident) ident
        [''PROVISIONING''] ''AVAILABLE'' 0 (5 * Second) w = Some (r, w')"
    then show ?thesis
      by (rule unlimited_poll_returns) (rule state_closure_errors)
  next
    assume "waitForResourceToReachState (instanceState d ctx ident) ident
        waitStates terminalState 0 (5 * Second) w = Some (r, w')"
    then show ?thesis
      by (rule unlimited_poll_returns) (rule state_closure_errors)
  next
    assume "waitForResourceToReachState (bootVolumeState d ctx ident) ident
        waitStates terminalState 0 (5 * Second) w = Some (r, w')"
    then show ?thesis
      by (rule unlimited_poll_returns) (rule state_closure_errors)
  next
    assume "waitForResourceToReachState (volumeAttachmentState d ctx ident) ident
        waitStates terminalState 0 (5 * Second) w = Some (r, w')"
    then show ?thesis
      by (rule unlimited_poll_returns) (rule state_closure_errors)
  qed
  from both show "r \<noteq> Some (MaxRetriesExceeded n t)" by simp
  from both show "now w' = now w + int (sleeps w' - sleeps w) * 5000000000" by simp
qed (simp_all add: WaitForImageCreation_def WaitForInstanceState_def WaitForBootVolumeState_def
    WaitForVolumeAttachmentState_def)

theorem wait_operations_unlimited_fixed_delay_witness:
  "WaitForImageCreation
     (canned (config ''ocid1.image.base'' '''' False) [] [] []
        \<lparr>PrivateIp = None, PublicIp = None\<rparr> [''PROVISIONING'', ''PROVISIONING'', ''AVAILABLE''])
     TODO ''img-2'' start
   = Some (None, \<lparr>now = 10000000000, fetched = 3, sleeps = 2\<rparr>)
   \<and> (None :: string error option) \<noteq> Some (MaxRetriesExceeded 0 ''AVAILABLE'')
   \<and> now \<lparr>now = 10000000000, fetched = 3, sleeps = 2\<rparr>
     = now start + int (sleeps \<lparr>now = 10000000000, fetched = 3, sleeps = 2\<rparr> - sleeps start)
         * 5000000000"
  using wait_operations_unlimited_fixed_delay
    [of "canned (config ''ocid1.image.base'' '''' False) [] [] []
          \<lparr>PrivateIp = None, PublicIp = None\<rparr> [''PROVISIONING'', ''PROVISIONING'', ''AVAILABLE'']"
       TODO "''img-2''" "[''PROVISIONING'']" "''AVAILABLE''" start None
       "\<lparr>now = 10000000000, fetched = 3, sleeps = 2\<rparr>" 0 "''AVAILABLE''"]
  by (simp add: WaitForImageCreation_def WaitForInstanceState_def WaitForBootVolumeState_def
      WaitForVolumeAttachmentState_def waitForResourceToReachState_def pollLoop.simps
      imageState_def canned_def polled_def start_def Sleep_def invoked_def Second_def
      int_wrap_def TODO_def)

end
